theory Spec2Isabelle
  imports Main "HOL-Library.Sublist" "HOL-Library.Multiset" "HOL-Library.Product_Lexorder"
begin

section \<open>Data model\<close>

text \<open>
  Strings are lists of 8-bit characters, read as the code units U+0000 to U+00FF.
  A stored turn is one document of the \<open>Message\<close> collection (\<open>IMessage\<close> in
  \<open>message.schema.ts\<close>); \<open>createdAt\<close> is the timestamp mongoose assigns on creation,
  in milliseconds.
\<close>

record IMessage =
  sessionId :: string
  message :: string
  reply :: string
  createdAt :: nat

record HistoryRequestBody =
  body_sessionId :: string

record MessageRequestBody = HistoryRequestBody +
  body_message :: string

text \<open>\<open>ChatMessage\<close> of \<open>chatgpt.service.ts\<close>.\<close>

datatype role = User | Assistant | System

record ChatMessage =
  role :: role
  content :: string

text \<open>
  What \<open>res.json\<close> sends. A thrown value is either an instance of \<open>Error\<close>, with its
  \<open>message\<close> and its own enumerable properties (the only part of an \<open>Error\<close> that
  \<open>JSON.stringify\<close> emits: \<open>message\<close> and \<open>stack\<close> are not enumerable), or any other
  value.
\<close>

datatype json =
    JString string
  | JNumber int
  | JArray "json list"
  | JObject "(string \<times> json) list"

datatype thrown =
    JsError string "(string \<times> json) list"
  | JsValue json

record response =
  status :: nat
  body :: json

text \<open>
  The part of a chat completion that \<open>AI\<close> reads: \<open>response.choices[0]?.message?.content\<close>.
  A missing \<open>message\<close> and a \<open>null\<close> content are \<open>None\<close>.
\<close>

record ChatCompletionMessage =
  message_content :: "string option"

record Choice =
  choice_message :: "ChatCompletionMessage option"

record ChatCompletion =
  choices :: "Choice list"

text \<open>
  The collaborators outside the repository: the hosted model
  (\<open>openai.chat.completions.create\<close>, which resolves to a completion or rejects), the
  database driver (a rejection of \<open>Message.aggregate\<close> or of \<open>Message.create\<close>),
  the order in which the database returns documents whose sort keys are equal (a rank of
  the documents, lower first), the error mongoose throws for the paths that fail a
  schema validator, and the clock that stamps \<open>createdAt\<close>.
\<close>

record env =
  completions_create :: "ChatMessage list \<Rightarrow> thrown + ChatCompletion"
  aggregate_rejects :: "thrown option"
  create_rejects :: "thrown option"
  tie_order :: "IMessage \<Rightarrow> nat"
  required_error :: "string list \<Rightarrow> thrown"
  Date_now :: nat

text \<open>
  The state a request reads and writes: the collection in insertion order, and the log of
  message lists sent to the model, oldest first.
\<close>

record state =
  collection :: "IMessage list"
  sent :: "ChatMessage list list"

section \<open>The reply generator (\<open>chatgpt.service.ts\<close>)\<close>

definition SYSTEM_PROMPT :: string where
  "SYSTEM_PROMPT =
     ''\<newline>'' @
     ''You are a professional and empathetic customer support agent for an E-COMMERCE WEBSITE.\<newline>'' @
     ''\<newline>'' @
     ''YOUR IDENTITY:\<newline>'' @
     ''- You are a dedicated customer support representative working for an e-commerce platform.\<newline>'' @
     ''- You are NOT ChatGPT, OpenAI, or any AI assistant - you are a human customer support agent.\<newline>'' @
     ''- Never mention OpenAI, ChatGPT, or any external AI companies or technologies.\<newline>'' @
     ''- Always present yourself as a real person helping customers.\<newline>'' @
     ''\<newline>'' @
     ''YOUR ROLE & RESPONSIBILITIES:\<newline>'' @
     ''- Provide exceptional customer service for an e-commerce platform.\<newline>'' @
     ''- Assist customers with: order inquiries, order tracking, payment issues, refunds, returns, exchanges, delivery problems, product questions, account management, and general support.\<newline>'' @
     ''- Resolve customer issues efficiently and professionally.\<newline>'' @
     ''- Maintain a positive, helpful, and solution-oriented approach.\<newline>'' @
     ''\<newline>'' @
     ''COMMUNICATION GUIDELINES:\<newline>'' @
     ''- Use a warm, friendly, and professional tone in all interactions.\<newline>'' @
     ''- Be empathetic and understanding when customers face issues.\<newline>'' @
     ''- Communicate clearly and concisely - avoid jargon unless necessary.\<newline>'' @
     ''- Always acknowledge the customer's concern before providing solutions.\<newline>'' @
     ''- Use active listening - reference previous messages in the conversation when relevant.\<newline>'' @
     ''- If you don't have specific information (like order numbers or account details), politely ask for it.\<newline>'' @
     ''- For complex issues, provide step-by-step guidance.\<newline>'' @
     ''- End responses with a helpful question or next step when appropriate.\<newline>'' @
     ''\<newline>'' @
     ''RESPONSE STYLE:\<newline>'' @
     ''- Keep responses conversational but professional.\<newline>'' @
     ''- Use appropriate greetings and sign-offs naturally.\<newline>'' @
     ''- Break down complex information into digestible points.\<newline>'' @
     ''- Use bullet points or numbered lists when explaining multi-step processes.\<newline>'' @
     ''- Show genuine care and concern for the customer's experience.\<newline>'' @
     ''\<newline>'' @
     ''STORE INFORMATION & POLICIES:\<newline>'' @
     ''- Shipping Policy:\<newline>'' @
     ''  * We offer free standard shipping on orders over $50.\<newline>'' @
     ''  * Standard shipping: 5-7 business days ($5.99)\<newline>'' @
     ''  * Express shipping: 2-3 business days ($12.99)\<newline>'' @
     ''  * International shipping available to select countries (7-14 business days, $19.99)\<newline>'' @
     ''  * Orders are processed within 1-2 business days.\<newline>'' @
     ''  * You'll receive a tracking number via email once your order ships.\<newline>'' @
     ''\<newline>'' @
     ''- Return & Refund Policy:\<newline>'' @
     ''  * Returns accepted within 30 days of delivery.\<newline>'' @
     ''  * Items must be unused, in original packaging with tags attached.\<newline>'' @
     ''  * To initiate a return, contact us with your order number.\<newline>'' @
     ''  * Refunds processed within 5-7 business days after we receive the returned item.\<newline>'' @
     ''  * Original shipping costs are non-refundable unless the item was defective or incorrect.\<newline>'' @
     ''  * Sale items are final sale unless defective.\<newline>'' @
     ''\<newline>'' @
     ''- Support Hours:\<newline>'' @
     ''  * Customer support is available Monday-Friday: 9:00 AM - 6:00 PM EST\<newline>'' @
     ''  * Saturday: 10:00 AM - 4:00 PM EST\<newline>'' @
     ''  * Sunday: Closed\<newline>'' @
     ''  * For urgent matters outside business hours, leave a message and we'll respond within 24 hours.\<newline>'' @
     ''\<newline>'' @
     ''- General Information:\<newline>'' @
     ''  * We accept all major credit cards, PayPal, and Apple Pay.\<newline>'' @
     ''  * Orders can be cancelled within 24 hours of placement if not yet shipped.\<newline>'' @
     ''  * We offer gift wrapping services for an additional $5.\<newline>'' @
     ''  * Loyalty program: Earn points with every purchase (1 point = $1 spent).\<newline>'' @
     ''\<newline>'' @
     ''IMPORTANT RULES:\<newline>'' @
     ''- Stay within the context of e-commerce customer support only.\<newline>'' @
     ''- Never discuss technical details about AI, machine learning, or your underlying technology.\<newline>'' @
     ''- If asked about topics outside e-commerce support, politely redirect to how you can help with their shopping needs.\<newline>'' @
     ''- Always prioritize customer satisfaction and problem resolution.\<newline>'' @
     ''- Maintain confidentiality - never ask for sensitive information unless absolutely necessary for order/account verification.\<newline>'' @
     ''- Use the store information above to answer FAQs accurately and consistently.\<newline>''"

text \<open>The \<open>messages\<close> array that \<open>AI\<close> builds.\<close>

definition AI_messages :: "string \<Rightarrow> ChatMessage list \<Rightarrow> ChatMessage list" where
  "AI_messages msg history =
     \<lparr>role = System, content = SYSTEM_PROMPT\<rparr> #
     map (\<lambda>chat. \<lparr>role = (if role chat = Assistant then Assistant else User),
                    content = content chat\<rparr>) history @
     [\<lparr>role = User, content = msg\<rparr>]"

text \<open>\<open>response.choices[0]?.message?.content\<close>.\<close>

definition first_content :: "ChatCompletion \<Rightarrow> string option" where
  "first_content response =
     (case choices response of
        [] \<Rightarrow> None
      | c # _ \<Rightarrow> (case choice_message c of None \<Rightarrow> None | Some m \<Rightarrow> message_content m))"

definition AI :: "env \<Rightarrow> state \<Rightarrow> string \<Rightarrow> ChatMessage list \<Rightarrow> (thrown + string) \<times> state" where
  "AI e st msg history =
     (let messages = AI_messages msg history;
          st' = st\<lparr>sent := sent st @ [messages]\<rparr>
      in case completions_create e messages of
           Inl err \<Rightarrow> (Inl err, st')
         | Inr response \<Rightarrow>
             (case first_content response of
                None \<Rightarrow> (Inl (JsError ''No response content from OpenAI'' []), st')
              | Some [] \<Rightarrow> (Inl (JsError ''No response content from OpenAI'' []), st')
              | Some (c # cs) \<Rightarrow> (Inr (c # cs), st')))"

section \<open>The conversation store (\<open>message.schema.ts\<close> and the aggregation stages)\<close>

text \<open>
  The stages of the two aggregation pipelines. \<open>$sort\<close> on \<open>createdAt\<close> orders by the
  timestamp and has no tie-breaker: MongoDB leaves the order of documents with equal
  keys open. The stage therefore takes a rank of the documents from the environment and
  orders documents of equal \<open>createdAt\<close> by it, so that every order of the ties is the
  outcome under some rank (\<open>every_tie_order_has_a_rank\<close>).
\<close>

definition match_sessionId :: "string \<Rightarrow> IMessage list \<Rightarrow> IMessage list" where
  "match_sessionId sid docs = filter (\<lambda>d. sessionId d = sid) docs"

definition sort_createdAt_asc :: "(IMessage \<Rightarrow> nat) \<Rightarrow> IMessage list \<Rightarrow> IMessage list" where
  "sort_createdAt_asc rank docs = sort_key (\<lambda>d. (createdAt d, rank d)) docs"

definition sort_createdAt_desc :: "(IMessage \<Rightarrow> nat) \<Rightarrow> IMessage list \<Rightarrow> IMessage list" where
  "sort_createdAt_desc rank docs = rev (sort_key (\<lambda>d. (createdAt d, rank d)) docs)"

definition limit :: "nat \<Rightarrow> 'a list \<Rightarrow> 'a list" where
  "limit n docs = take n docs"

text \<open>
  \<open>$project\<close> keeps one field, \<open>messages\<close>, a two-element array; a projected document
  is represented by the value of that field.
\<close>

definition project_chat :: "IMessage \<Rightarrow> ChatMessage list" where
  "project_chat d =
     [\<lparr>role = User, content = message d\<rparr>, \<lparr>role = Assistant, content = reply d\<rparr>]"

datatype sender = SenderUser | SenderAi

record HistoryEntry =
  entry_sender :: sender
  entry_text :: string

definition project_history :: "IMessage \<Rightarrow> HistoryEntry list" where
  "project_history d =
     [\<lparr>entry_sender = SenderUser, entry_text = message d\<rparr>,
      \<lparr>entry_sender = SenderAi, entry_text = reply d\<rparr>]"

text \<open>
  \<open>$unwind\<close> emits one document per element of \<open>messages\<close>, in array order, and
  \<open>$replaceRoot\<close> promotes that element to the document.
\<close>

definition unwind :: "'a list list \<Rightarrow> 'a list" where
  "unwind items = concat items"

definition replaceRoot :: "'a list \<Rightarrow> 'a list" where
  "replaceRoot items = map (\<lambda>m. m) items"

definition recent_pipeline ::
  "string \<Rightarrow> (IMessage \<Rightarrow> nat) \<Rightarrow> IMessage list \<Rightarrow> ChatMessage list list" where
  "recent_pipeline sid rank docs =
     map project_chat (limit 10 (sort_createdAt_desc rank (match_sessionId sid docs)))"

definition history_pipeline ::
  "string \<Rightarrow> (IMessage \<Rightarrow> nat) \<Rightarrow> IMessage list \<Rightarrow> HistoryEntry list" where
  "history_pipeline sid rank docs =
     replaceRoot (unwind (map project_history (sort_createdAt_asc rank (match_sessionId sid docs))))"

definition Message_aggregate ::
  "env \<Rightarrow> state \<Rightarrow> ((IMessage \<Rightarrow> nat) \<Rightarrow> IMessage list \<Rightarrow> 'a) \<Rightarrow> thrown + 'a" where
  "Message_aggregate e st pipeline =
     (case aggregate_rejects e of
        Some err \<Rightarrow> Inl err
      | None \<Rightarrow> Inr (pipeline (tie_order e) (collection st)))"

text \<open>
  \<open>Message.create\<close>. The schema marks the three string paths \<open>required\<close>, which mongoose
  checks before the insert and which an empty string fails; the timestamp option stamps
  \<open>createdAt\<close>.
\<close>

definition required_failures :: "string \<Rightarrow> string \<Rightarrow> string \<Rightarrow> string list" where
  "required_failures sid msg rep =
     (if sid = [] then [''sessionId''] else []) @
     (if msg = [] then [''message''] else []) @
     (if rep = [] then [''reply''] else [])"

definition Message_create :: "env \<Rightarrow> state \<Rightarrow> string \<Rightarrow> string \<Rightarrow> string \<Rightarrow> thrown + state" where
  "Message_create e st sid msg rep =
     (if required_failures sid msg rep \<noteq> [] then Inl (required_error e (required_failures sid msg rep))
      else case create_rejects e of
             Some err \<Rightarrow> Inl err
           | None \<Rightarrow>
               Inr (st\<lparr>collection := collection st @
                      [\<lparr>sessionId = sid, message = msg, reply = rep, createdAt = Date_now e\<rparr>]\<rparr>))"

section \<open>The controller (\<open>message.controller.ts\<close>)\<close>

text \<open>
  \<open>String.prototype.toLowerCase\<close> on the code units below U+0100, and
  \<open>String.prototype.includes\<close>.
\<close>

definition toLowerCase_char :: "char \<Rightarrow> char" where
  "toLowerCase_char c =
     (let n = of_char c :: nat
      in if (65 \<le> n \<and> n \<le> 90) \<or> (192 \<le> n \<and> n \<le> 222 \<and> n \<noteq> 215)
         then char_of (n + 32) else c)"

definition toLowerCase :: "string \<Rightarrow> string" where
  "toLowerCase s = map toLowerCase_char s"

fun string_includes :: "string \<Rightarrow> string \<Rightarrow> bool" where
  "string_includes [] needle = (needle = [])"
| "string_includes (c # cs) needle = (prefix needle (c # cs) \<or> string_includes cs needle)"

text \<open>The four failure responses of \<open>userMessage\<close>, in the order of its \<open>catch\<close> block.\<close>

definition configuration_response :: response where
  "configuration_response =
     \<lparr>status = 500,
      body = JObject [(''msg'', JString ''Service configuration error. Please contact support.''),
                      (''error'', JString ''Invalid API configuration'')]\<rparr>"

definition unavailable_response :: response where
  "unavailable_response =
     \<lparr>status = 503,
      body = JObject [(''msg'', JString ''Service is temporarily unavailable. Please try again in a moment.''),
                      (''error'', JString ''Rate limit exceeded'')]\<rparr>"

definition timeout_response :: response where
  "timeout_response =
     \<lparr>status = 504,
      body = JObject [(''msg'', JString ''Request timed out. Please try again.''),
                      (''error'', JString ''Request timeout'')]\<rparr>"

definition generic_response :: response where
  "generic_response =
     \<lparr>status = 500,
      body = JObject [(''msg'', JString ''Sorry, I'm having trouble processing your request. Please try again later.''),
                      (''error'', JString ''Internal server error'')]\<rparr>"

definition userMessage_catch :: "thrown \<Rightarrow> response" where
  "userMessage_catch error =
     (case error of
        JsError error_message _ \<Rightarrow>
          (let errorMessage = toLowerCase error_message
           in if string_includes errorMessage ''api key'' \<or> string_includes errorMessage ''authentication''
              then configuration_response
              else if string_includes errorMessage ''rate limit'' \<or> string_includes errorMessage ''quota''
              then unavailable_response
              else if string_includes errorMessage ''timeout'' \<or> string_includes errorMessage ''network''
              then timeout_response
              else generic_response)
      | JsValue _ \<Rightarrow> generic_response)"

text \<open>The \<open>flatMap\<close> over the aggregate result and the \<open>reverse\<close> that follows it.\<close>

definition history_of_data :: "ChatMessage list list \<Rightarrow> ChatMessage list" where
  "history_of_data data =
     rev (concat (map (\<lambda>item. map (\<lambda>m. \<lparr>role = role m, content = content m\<rparr>) item) data))"

definition userMessage :: "env \<Rightarrow> state \<Rightarrow> MessageRequestBody \<Rightarrow> response \<times> state" where
  "userMessage e st req =
     (let sid = body_sessionId req; msg = body_message req
      in case Message_aggregate e st (recent_pipeline sid) of
           Inl error \<Rightarrow> (userMessage_catch error, st)
         | Inr data \<Rightarrow>
             (case AI e st msg (history_of_data data) of
                (Inl error, st1) \<Rightarrow> (userMessage_catch error, st1)
              | (Inr response, st1) \<Rightarrow>
                  (case Message_create e st1 sid msg response of
                     Inl error \<Rightarrow> (userMessage_catch error, st1)
                   | Inr st2 \<Rightarrow>
                       (\<lparr>status = 200,
                         body = JObject [(''reply'', JString response),
                                         (''sessionId'', JString sid)]\<rparr>, st2))))"

text \<open>
  What \<open>JSON.stringify\<close> makes of a caught value: of an \<open>Error\<close>, the object of its own
  enumerable properties.
\<close>

definition json_of_thrown :: "thrown \<Rightarrow> json" where
  "json_of_thrown error = (case error of JsError _ props \<Rightarrow> JObject props | JsValue v \<Rightarrow> v)"

definition json_of_entry :: "HistoryEntry \<Rightarrow> json" where
  "json_of_entry en =
     JObject [(''sender'', JString (case entry_sender en of SenderUser \<Rightarrow> ''user'' | SenderAi \<Rightarrow> ''ai'')),
              (''text'', JString (entry_text en))]"

definition userHistory :: "env \<Rightarrow> state \<Rightarrow> HistoryRequestBody \<Rightarrow> response \<times> state" where
  "userHistory e st req =
     (let sid = body_sessionId req
      in case Message_aggregate e st (history_pipeline sid) of
           Inr data \<Rightarrow>
             (\<lparr>status = 200, body = JObject [(''data'', JArray (map json_of_entry data))]\<rparr>, st)
         | Inl error \<Rightarrow>
             (\<lparr>status = 500,
               body = JObject [(''msg'', JString ''Internal Server Error''),
                               (''error'', json_of_thrown error)]\<rparr>, st))"

section \<open>Request validation (\<open>validateMessage\<close>, \<open>validateHistory\<close>)\<close>

text \<open>
  The sanitizer \<open>trim\<close> strips the whitespace of \<open>\s\<close> from both ends (below U+0100: tab,
  line feed, vertical tab, form feed, carriage return, space and no-break space).
\<close>

definition isspace :: "char \<Rightarrow> bool" where
  "isspace c = (of_char c \<in> {9, 10, 11, 12, 13, 32, 160 :: nat})"

definition ltrim :: "string \<Rightarrow> string" where
  "ltrim s = dropWhile isspace s"

definition rtrim :: "string \<Rightarrow> string" where
  "rtrim s = rev (dropWhile isspace (rev s))"

definition trim :: "string \<Rightarrow> string" where
  "trim s = rtrim (ltrim s)"

text \<open>
  One chain: the sanitized value and the messages of the validators that fail on it, in
  chain order (\<open>notEmpty\<close>, \<open>isString\<close>, \<open>isLength\<close>; no validator bails). \<open>isString\<close>
  holds of every string.
\<close>

definition isString :: "string \<Rightarrow> bool" where
  "isString v = True"

definition isLength :: "nat \<Rightarrow> nat \<Rightarrow> string \<Rightarrow> bool" where
  "isLength mn mx v = (mn \<le> length v \<and> length v \<le> mx)"

definition sessionId_chain :: "string \<Rightarrow> string \<times> (string \<times> string) list" where
  "sessionId_chain v =
     (let v' = trim v
      in (v',
          (if v' \<noteq> [] then [] else [(''sessionId'', ''Session ID is required'')]) @
          (if isString v' then [] else [(''sessionId'', ''Session ID must be a string'')]) @
          (if isLength 1 200 v' then []
           else [(''sessionId'', ''Session ID must be between 1 and 200 characters'')])))"

definition message_chain :: "string \<Rightarrow> string \<times> (string \<times> string) list" where
  "message_chain v =
     (let v' = trim v
      in (v',
          (if v' \<noteq> [] then [] else [(''message'', ''Message is required'')]) @
          (if isString v' then [] else [(''message'', ''Message must be a string'')]) @
          (if isLength 1 5000 v' then []
           else [(''message'', ''Message must be between 1 and 5000 characters'')])))"

definition validateMessage :: "MessageRequestBody \<Rightarrow> MessageRequestBody \<times> (string \<times> string) list" where
  "validateMessage req =
     (let (sid, errs1) = sessionId_chain (body_sessionId req);
          (msg, errs2) = message_chain (body_message req)
      in (\<lparr>body_sessionId = sid, body_message = msg\<rparr>, errs1 @ errs2))"

definition validateHistory :: "HistoryRequestBody \<Rightarrow> HistoryRequestBody \<times> (string \<times> string) list" where
  "validateHistory req =
     (let (sid, errs1) = sessionId_chain (body_sessionId req)
      in (\<lparr>body_sessionId = sid\<rparr>, errs1))"

text \<open>
  Modelled from the spec: the middleware \<open>validate\<close> of \<open>validation.middleware.ts\<close>, which
  is not among the sources. It runs the chains on the request; a request with a failing
  validator is rejected with status 400 and the field-level errors before the handler
  runs, and any other request reaches the handler with its sanitized body.
\<close>

definition validate ::
  "('r \<Rightarrow> 'r \<times> (string \<times> string) list) \<Rightarrow> (env \<Rightarrow> state \<Rightarrow> 'r \<Rightarrow> response \<times> state) \<Rightarrow>
   env \<Rightarrow> state \<Rightarrow> 'r \<Rightarrow> response \<times> state" where
  "validate chain handler e st req =
     (case chain req of
        (req', []) \<Rightarrow> handler e st req'
      | (_, err # errs) \<Rightarrow>
          (\<lparr>status = 400,
            body = JObject [(''errors'',
                     JArray (map (\<lambda>(p, m). JObject [(''path'', JString p), (''msg'', JString m)])
                                 (err # errs)))]\<rparr>, st))"

text \<open>The two routes of \<open>message.route.ts\<close>.\<close>

definition post_message :: "env \<Rightarrow> state \<Rightarrow> MessageRequestBody \<Rightarrow> response \<times> state" where
  "post_message = validate validateMessage userMessage"

definition post_history :: "env \<Rightarrow> state \<Rightarrow> HistoryRequestBody \<Rightarrow> response \<times> state" where
  "post_history = validate validateHistory userHistory"

section \<open>Example data\<close>

text \<open>
  A store with one turn of session \<open>s1\<close>, an environment whose model call has a fixed
  outcome and whose database calls succeed, and a request on that session.
\<close>

definition example_store :: state where
  "example_store =
     \<lparr>collection = [\<lparr>sessionId = ''s1'', message = ''hi'', reply = ''hello'', createdAt = 5\<rparr>],
      sent = []\<rparr>"

definition example_env :: "(thrown + ChatCompletion) \<Rightarrow> env" where
  "example_env outcome =
     \<lparr>completions_create = (\<lambda>messages. outcome),
      aggregate_rejects = None,
      create_rejects = None,
      tie_order = (\<lambda>d. 0),
      required_error = (\<lambda>paths. JsError ''Message validation failed'' []),
      Date_now = 7\<rparr>"

definition example_completion :: "string option \<Rightarrow> thrown + ChatCompletion" where
  "example_completion c = Inr \<lparr>choices = [\<lparr>choice_message = Some \<lparr>message_content = c\<rparr>\<rparr>]\<rparr>"

definition example_request :: MessageRequestBody where
  "example_request = \<lparr>body_sessionId = ''s1'', body_message = ''next''\<rparr>"

text \<open>
  The same store with its turn stamped 9 or 7, at or after the clock of the environment,
  and a rank that puts the turn with the message \<open>next\<close> first among equal stamps.
\<close>

definition example_store_stamped :: "nat \<Rightarrow> state" where
  "example_store_stamped t =
     \<lparr>collection = [\<lparr>sessionId = ''s1'', message = ''hi'', reply = ''hello'', createdAt = t\<rparr>],
      sent = []\<rparr>"

definition next_first :: "IMessage \<Rightarrow> nat" where
  "next_first d = (if message d = ''next'' then 0 else 1)"

text \<open>An error of the database driver, with the enumerable properties of a server error.\<close>

definition example_read_fault :: thrown where
  "example_read_fault =
     JsError ''not authorized on chat to execute command''
       [(''ok'', JNumber 0), (''code'', JNumber 13), (''codeName'', JString ''Unauthorized'')]"

section \<open>The example, evaluated\<close>

lemma example_recent:
  "Message_aggregate (example_env outcome) example_store (recent_pipeline ''s1'') =
     Inr [[\<lparr>role = User, content = ''hi''\<rparr>, \<lparr>role = Assistant, content = ''hello''\<rparr>]]"
  by (simp add: Message_aggregate_def example_env_def example_store_def recent_pipeline_def
        limit_def sort_createdAt_desc_def match_sessionId_def project_chat_def)

lemma example_history:
  "history_of_data [[\<lparr>role = User, content = ''hi''\<rparr>, \<lparr>role = Assistant, content = ''hello''\<rparr>]] =
     [\<lparr>role = Assistant, content = ''hello''\<rparr>, \<lparr>role = User, content = ''hi''\<rparr>]"
  by (simp add: history_of_data_def)

lemma example_AI_ok:
  "AI (example_env (example_completion (Some ''ok''))) st m h =
     (Inr ''ok'', st\<lparr>sent := sent st @ [AI_messages m h]\<rparr>)"
  by (simp add: AI_def Let_def example_env_def example_completion_def first_content_def)

lemma example_AI_rejected:
  "AI (example_env (Inl err)) st m h = (Inl err, st\<lparr>sent := sent st @ [AI_messages m h]\<rparr>)"
  by (simp add: AI_def Let_def example_env_def)

lemma example_AI_empty:
  "AI (example_env (example_completion (Some ''''))) st m h =
     (Inl (JsError ''No response content from OpenAI'' []), st\<lparr>sent := sent st @ [AI_messages m h]\<rparr>)"
  by (simp add: AI_def Let_def example_env_def example_completion_def first_content_def)

lemma example_create:
  "Message_create (example_env outcome) st ''s1'' ''next'' ''ok'' =
     Inr (st\<lparr>collection := collection st @
            [\<lparr>sessionId = ''s1'', message = ''next'', reply = ''ok'', createdAt = 7\<rparr>]\<rparr>)"
  by (simp add: Message_create_def required_failures_def example_env_def)

lemma example_userMessage_ok:
  "userMessage (example_env (example_completion (Some ''ok''))) example_store example_request =
     (\<lparr>status = 200, body = JObject [(''reply'', JString ''ok''), (''sessionId'', JString ''s1'')]\<rparr>,
      \<lparr>collection = [\<lparr>sessionId = ''s1'', message = ''hi'', reply = ''hello'', createdAt = 5\<rparr>,
                     \<lparr>sessionId = ''s1'', message = ''next'', reply = ''ok'', createdAt = 7\<rparr>],
       sent = [AI_messages ''next'' [\<lparr>role = Assistant, content = ''hello''\<rparr>, \<lparr>role = User, content = ''hi''\<rparr>]]\<rparr>)"
  by (simp add: userMessage_def Let_def example_request_def example_recent example_history
        example_AI_ok example_create) (simp add: example_store_def)

section \<open>Prompt construction\<close>

lemma length_AI_messages: "length (AI_messages m h) = length h + 2"
  by (simp add: AI_messages_def)

lemma AI_messages_nth_history:
  assumes "i < length h"
  shows "AI_messages m h ! Suc i =
         \<lparr>role = (if role (h ! i) = Assistant then Assistant else User), content = content (h ! i)\<rparr>"
  using assms by (simp add: AI_messages_def nth_append)

lemma AI_messages_last: "AI_messages m h ! Suc (length h) = \<lparr>role = User, content = m\<rparr>"
  by (simp add: AI_messages_def nth_append)

lemma AI_sent: "sent (snd (AI e st m h)) = sent st @ [AI_messages m h]"
  by (simp add: AI_def Let_def split: sum.splits option.splits list.splits)

text \<open>
  C5. For every new message \<open>m\<close> and every history \<open>h\<close> of \<open>k\<close> entries, the list that
  \<open>AI\<close> sends to the model has \<open>k + 2\<close> entries: the fixed system preamble first, then the
  \<open>k\<close> history entries in their input order, each with its content unchanged and with
  role assistant or user, then \<open>m\<close> as the final user entry. It is the one list the call
  adds to the log of requests.
\<close>

theorem AI_messages_order:
  "length (AI_messages m h) = length h + 2 \<and>
   AI_messages m h ! 0 = \<lparr>role = System, content = SYSTEM_PROMPT\<rparr> \<and>
   (\<forall>i<length h. AI_messages m h ! Suc i =
       \<lparr>role = (if role (h ! i) = Assistant then Assistant else User), content = content (h ! i)\<rparr>) \<and>
   AI_messages m h ! Suc (length h) = \<lparr>role = User, content = m\<rparr> \<and>
   sent (snd (AI e st m h)) = sent st @ [AI_messages m h]"
proof -
  have "AI_messages m h ! 0 = \<lparr>role = System, content = SYSTEM_PROMPT\<rparr>"
    by (simp add: AI_messages_def)
  then show ?thesis
    using length_AI_messages AI_messages_nth_history AI_messages_last AI_sent by blast
qed

theorem AI_messages_order_witness:
  "AI_messages ''m''
     [\<lparr>role = User, content = ''h1''\<rparr>, \<lparr>role = Assistant, content = ''h2''\<rparr>,
      \<lparr>role = User, content = ''h3''\<rparr>] =
   [\<lparr>role = System, content = SYSTEM_PROMPT\<rparr>, \<lparr>role = User, content = ''h1''\<rparr>,
    \<lparr>role = Assistant, content = ''h2''\<rparr>, \<lparr>role = User, content = ''h3''\<rparr>,
    \<lparr>role = User, content = ''m''\<rparr>]"
proof -
  let ?h = "[\<lparr>role = User, content = ''h1''\<rparr>, \<lparr>role = Assistant, content = ''h2''\<rparr>,
             \<lparr>role = User, content = ''h3''\<rparr>]"
  let ?r = "AI_messages ''m'' ?h"
  have t: "length ?r = length ?h + 2 \<and>
     ?r ! 0 = \<lparr>role = System, content = SYSTEM_PROMPT\<rparr> \<and>
     (\<forall>i<length ?h. ?r ! Suc i =
       \<lparr>role = (if role (?h ! i) = Assistant then Assistant else User), content = content (?h ! i)\<rparr>) \<and>
     ?r ! Suc (length ?h) = \<lparr>role = User, content = ''m''\<rparr>"
    using AI_messages_order [of "''m''" ?h] by blast
  have len: "length ?r = 5" using t by simp
  have "?r ! 1 = \<lparr>role = User, content = ''h1''\<rparr>"
       "?r ! 2 = \<lparr>role = Assistant, content = ''h2''\<rparr>"
       "?r ! 3 = \<lparr>role = User, content = ''h3''\<rparr>"
    using t by (auto simp: numeral_2_eq_2 numeral_3_eq_3 less_Suc_eq)
  moreover have "?r ! 0 = \<lparr>role = System, content = SYSTEM_PROMPT\<rparr>"
                "?r ! 4 = \<lparr>role = User, content = ''m''\<rparr>"
    using t by (simp_all add: eval_nat_numeral)
  ultimately show ?thesis using len
    by (intro nth_equalityI) (auto simp: less_Suc_eq eval_nat_numeral)
qed

section \<open>The reply generator: roles and replies\<close>

lemma AI_messages_head: "AI_messages m h ! 0 = \<lparr>role = System, content = SYSTEM_PROMPT\<rparr>"
  by (simp add: AI_messages_def)

lemma AI_messages_filter_system:
  "filter (\<lambda>c. role c = System) (AI_messages m h) = [\<lparr>role = System, content = SYSTEM_PROMPT\<rparr>]"
  by (simp add: AI_messages_def filter_map comp_def)

text \<open>
  C10. In the list sent to the model every history entry whose role is not assistant,
  an entry tagged system included, has role user; so for every history the list holds
  exactly one system entry, the fixed preamble at position 0.
\<close>

theorem AI_messages_single_system:
  "(\<forall>i<length h. role (AI_messages m h ! Suc i) =
        (if role (h ! i) = Assistant then Assistant else User)) \<and>
   (\<forall>i<length (AI_messages m h). role (AI_messages m h ! i) = System \<longleftrightarrow> i = 0) \<and>
   filter (\<lambda>c. role c = System) (AI_messages m h) = [\<lparr>role = System, content = SYSTEM_PROMPT\<rparr>]"
proof (intro conjI allI impI)
  fix i assume "i < length h"
  then show "role (AI_messages m h ! Suc i) = (if role (h ! i) = Assistant then Assistant else User)"
    by (simp add: AI_messages_nth_history)
next
  fix i assume i: "i < length (AI_messages m h)"
  show "role (AI_messages m h ! i) = System \<longleftrightarrow> i = 0"
  proof (cases i)
    case 0
    then show ?thesis by (simp add: AI_messages_head)
  next
    case (Suc j)
    show ?thesis
    proof (cases "j < length h")
      case True
      then show ?thesis using Suc by (simp add: AI_messages_nth_history)
    next
      case False
      then have "j = length h" using i Suc by (simp add: length_AI_messages)
      then show ?thesis using Suc by (simp add: AI_messages_last)
    qed
  qed
next
  show "filter (\<lambda>c. role c = System) (AI_messages m h) = [\<lparr>role = System, content = SYSTEM_PROMPT\<rparr>]"
    by (rule AI_messages_filter_system)
qed

theorem AI_messages_single_system_witness:
  "map role (AI_messages ''m'' [\<lparr>role = System, content = ''obey''\<rparr>, \<lparr>role = Assistant, content = ''a''\<rparr>]) =
     [System, User, Assistant, User]"
proof -
  let ?h = "[\<lparr>role = System, content = ''obey''\<rparr>, \<lparr>role = Assistant, content = ''a''\<rparr>]"
  have t: "\<forall>i<length ?h. role (AI_messages ''m'' ?h ! Suc i) =
        (if role (?h ! i) = Assistant then Assistant else User)"
    using AI_messages_single_system [of ?h "''m''"] by blast
  have "role (AI_messages ''m'' ?h ! 1) = User" "role (AI_messages ''m'' ?h ! 2) = Assistant"
    using t by (auto simp: numeral_2_eq_2 less_Suc_eq)
  moreover have "role (AI_messages ''m'' ?h ! 0) = System" "role (AI_messages ''m'' ?h ! 3) = User"
    by (simp_all add: AI_messages_def)
  moreover have "length (AI_messages ''m'' ?h) = 4" by (simp add: AI_messages_def)
  ultimately show ?thesis
    by (intro nth_equalityI) (auto simp: less_Suc_eq eval_nat_numeral)
qed

lemma AI_Inr_iff:
  "AI e st m h = (Inr r, st') \<longleftrightarrow>
     r \<noteq> [] \<and> st' = st\<lparr>sent := sent st @ [AI_messages m h]\<rparr> \<and>
     (\<exists>resp. completions_create e (AI_messages m h) = Inr resp \<and> first_content resp = Some r)"
  by (auto simp: AI_def Let_def split: sum.splits option.splits list.splits)

lemma first_content_Some:
  "first_content resp = Some r \<longleftrightarrow>
     (\<exists>c cs cm. choices resp = c # cs \<and> choice_message c = Some cm \<and> message_content cm = Some r)"
  by (auto simp: first_content_def split: list.splits option.splits)

lemma AI_no_content:
  assumes "completions_create e (AI_messages m h) = Inr resp"
      and "first_content resp = None \<or> first_content resp = Some []"
  shows "fst (AI e st m h) = Inl (JsError ''No response content from OpenAI'' [])"
  using assms by (auto simp: AI_def Let_def)

lemma AI_state: "snd (AI e st m h) = st\<lparr>sent := sent st @ [AI_messages m h]\<rparr>"
  by (simp add: AI_def Let_def split: sum.splits option.splits list.splits)


lemma status_userMessage_catch: "status (userMessage_catch err) \<noteq> 200"
  by (simp add: userMessage_catch_def Let_def configuration_response_def unavailable_response_def
        timeout_response_def generic_response_def split: thrown.splits)

lemma userMessage_read_failed:
  assumes "Message_aggregate e st (recent_pipeline (body_sessionId req)) = Inl err"
  shows "userMessage e st req = (userMessage_catch err, st)"
  using assms by (simp add: userMessage_def Let_def)

lemma userMessage_generation_failed:
  assumes "Message_aggregate e st (recent_pipeline (body_sessionId req)) = Inr data"
      and "AI e st (body_message req) (history_of_data data) = (Inl err, st1)"
  shows "userMessage e st req = (userMessage_catch err, st1)"
  using assms by (simp add: userMessage_def Let_def)

lemma userMessage_write_failed:
  assumes "Message_aggregate e st (recent_pipeline (body_sessionId req)) = Inr data"
      and "AI e st (body_message req) (history_of_data data) = (Inr r, st1)"
      and "Message_create e st1 (body_sessionId req) (body_message req) r = Inl err"
  shows "userMessage e st req = (userMessage_catch err, st1)"
  using assms by (simp add: userMessage_def Let_def)

lemma userMessage_succeeded:
  assumes "Message_aggregate e st (recent_pipeline (body_sessionId req)) = Inr data"
      and "AI e st (body_message req) (history_of_data data) = (Inr r, st1)"
      and "Message_create e st1 (body_sessionId req) (body_message req) r = Inr st2"
  shows "userMessage e st req =
           (\<lparr>status = 200, body = JObject [(''reply'', JString r),
                                           (''sessionId'', JString (body_sessionId req))]\<rparr>, st2)"
  using assms by (simp add: userMessage_def Let_def)

lemma userMessage_200:
  assumes "status (fst (userMessage e st req)) = 200"
  shows "\<exists>data r st1 st2.
           Message_aggregate e st (recent_pipeline (body_sessionId req)) = Inr data \<and>
           AI e st (body_message req) (history_of_data data) = (Inr r, st1) \<and>
           Message_create e st1 (body_sessionId req) (body_message req) r = Inr st2 \<and>
           userMessage e st req =
             (\<lparr>status = 200, body = JObject [(''reply'', JString r), (''sessionId'', JString (body_sessionId req))]\<rparr>, st2)"
proof (cases "Message_aggregate e st (recent_pipeline (body_sessionId req))")
  case (Inl err)
  then show ?thesis using assms status_userMessage_catch
    by (simp add: userMessage_read_failed)
next
  case (Inr data)
  obtain res st1 where ai: "AI e st (body_message req) (history_of_data data) = (res, st1)"
    by (cases "AI e st (body_message req) (history_of_data data)")
  show ?thesis
  proof (cases res)
    case (Inl err)
    then show ?thesis using assms Inr ai status_userMessage_catch
      by (simp add: userMessage_generation_failed)
  next
    case r: (Inr r)
    show ?thesis
    proof (cases "Message_create e st1 (body_sessionId req) (body_message req) r")
      case (Inl err)
      then show ?thesis using assms Inr ai r status_userMessage_catch
        by (simp add: userMessage_write_failed)
    next
      case c: (Inr st2)
      then show ?thesis using Inr ai r userMessage_succeeded by blast
    qed
  qed
qed

lemma Message_create_Inr:
  "Message_create e st sid msg rep = Inr st2 \<Longrightarrow>
     st2 = st\<lparr>collection := collection st @
              [\<lparr>sessionId = sid, message = msg, reply = rep, createdAt = Date_now e\<rparr>]\<rparr>"
  by (auto simp: Message_create_def split: if_splits option.splits)

text \<open>
  C8. A reply that \<open>AI\<close> returns is the content of the first choice of the model's
  response and is not empty; when the response has no first choice, no message, a null
  content or an empty content, \<open>AI\<close> throws; and a submit-message response with status
  200 carries a non-empty reply.
\<close>

theorem AI_reply_nonempty:
  "(\<forall>r st'. AI e st m h = (Inr r, st') \<longrightarrow>
       r \<noteq> [] \<and>
       (\<exists>resp c cs cm. completions_create e (AI_messages m h) = Inr resp \<and>
          choices resp = c # cs \<and> choice_message c = Some cm \<and> message_content cm = Some r)) \<and>
   (\<forall>resp. completions_create e (AI_messages m h) = Inr resp \<and>
       (first_content resp = None \<or> first_content resp = Some []) \<longrightarrow>
       fst (AI e st m h) = Inl (JsError ''No response content from OpenAI'' [])) \<and>
   (status (fst (userMessage e st req)) = 200 \<longrightarrow>
       (\<exists>r. r \<noteq> [] \<and>
          body (fst (userMessage e st req)) =
            JObject [(''reply'', JString r), (''sessionId'', JString (body_sessionId req))]))"
proof (intro conjI allI impI)
  fix r st' assume "AI e st m h = (Inr r, st')"
  then have "r \<noteq> []"
    and "\<exists>resp. completions_create e (AI_messages m h) = Inr resp \<and> first_content resp = Some r"
    by (simp_all add: AI_Inr_iff)
  then show "r \<noteq> []"
    and "\<exists>resp c cs cm. completions_create e (AI_messages m h) = Inr resp \<and>
          choices resp = c # cs \<and> choice_message c = Some cm \<and> message_content cm = Some r"
    by (auto simp: first_content_Some)
next
  fix resp
  assume "completions_create e (AI_messages m h) = Inr resp \<and>
       (first_content resp = None \<or> first_content resp = Some [])"
  then show "fst (AI e st m h) = Inl (JsError ''No response content from OpenAI'' [])"
    using AI_no_content by blast
next
  assume "status (fst (userMessage e st req)) = 200"
  then obtain data r st1 st2 where
      ai: "AI e st (body_message req) (history_of_data data) = (Inr r, st1)"
    and um: "userMessage e st req =
             (\<lparr>status = 200, body = JObject [(''reply'', JString r), (''sessionId'', JString (body_sessionId req))]\<rparr>, st2)"
    using userMessage_200 by blast
  from ai have "r \<noteq> []" by (simp add: AI_Inr_iff)
  then show "\<exists>r. r \<noteq> [] \<and>
          body (fst (userMessage e st req)) =
            JObject [(''reply'', JString r), (''sessionId'', JString (body_sessionId req))]"
    using um by simp
qed

theorem AI_reply_nonempty_witness:
  "status (fst (userMessage (example_env (example_completion (Some ''ok''))) example_store example_request)) = 200 \<and>
   body (fst (userMessage (example_env (example_completion (Some ''ok''))) example_store example_request)) =
     JObject [(''reply'', JString ''ok''), (''sessionId'', JString ''s1'')] \<and>
   fst (AI (example_env (example_completion (Some ''''))) example_store ''next'' []) =
     Inl (JsError ''No response content from OpenAI'' [])"
proof -
  let ?e = "example_env (example_completion (Some ''''))"
  have c: "completions_create ?e (AI_messages ''next'' []) =
             Inr \<lparr>choices = [\<lparr>choice_message = Some \<lparr>message_content = Some ''''\<rparr>\<rparr>]\<rparr>"
    by (simp add: example_env_def example_completion_def)
  have f: "first_content \<lparr>choices = [\<lparr>choice_message = Some \<lparr>message_content = Some ''''\<rparr>\<rparr>]\<rparr> = Some []"
    by (simp add: first_content_def)
  have "fst (AI ?e example_store ''next'' []) = Inl (JsError ''No response content from OpenAI'' [])"
    using AI_reply_nonempty [of ?e example_store "''next''" "[]"] c f by blast
  then show ?thesis by (simp add: example_userMessage_ok)
qed

section \<open>Failures of submit message\<close>

lemma userMessage_collection:
  "collection (snd (userMessage e st req)) = collection st \<or>
   (\<exists>data r st1.
      Message_aggregate e st (recent_pipeline (body_sessionId req)) = Inr data \<and>
      AI e st (body_message req) (history_of_data data) = (Inr r, st1) \<and>
      collection (snd (userMessage e st req)) =
        collection st @ [\<lparr>sessionId = body_sessionId req, message = body_message req,
                          reply = r, createdAt = Date_now e\<rparr>])"
proof (cases "Message_aggregate e st (recent_pipeline (body_sessionId req))")
  case (Inl err)
  then show ?thesis by (simp add: userMessage_read_failed)
next
  case (Inr data)
  obtain res st1 where ai: "AI e st (body_message req) (history_of_data data) = (res, st1)"
    by (cases "AI e st (body_message req) (history_of_data data)")
  have st1: "collection st1 = collection st"
    using AI_state [of e st "body_message req" "history_of_data data"] ai by simp
  show ?thesis
  proof (cases res)
    case (Inl err)
    then show ?thesis using Inr ai st1 by (simp add: userMessage_generation_failed)
  next
    case r: (Inr r)
    show ?thesis
    proof (cases "Message_create e st1 (body_sessionId req) (body_message req) r")
      case (Inl err)
      then show ?thesis using Inr ai r st1 by (simp add: userMessage_write_failed)
    next
      case c: (Inr st2)
      have "collection st2 = collection st @ [\<lparr>sessionId = body_sessionId req,
              message = body_message req, reply = r, createdAt = Date_now e\<rparr>]"
        using Message_create_Inr [OF c] st1 by simp
      moreover have "snd (userMessage e st req) = st2"
        using userMessage_succeeded [of e st req data r st1 st2] Inr ai r c by simp
      ultimately show ?thesis using Inr ai r by auto
    qed
  qed
qed

text \<open>
  C2. When the call of the reply generator throws during a submit-message request, the
  stored log is the one the request started with. The log changes only by one new turn
  appended after a successful generation, carrying the generated reply.
\<close>

theorem userMessage_persists_only_after_generation:
  "(\<forall>data err st1.
      Message_aggregate e st (recent_pipeline (body_sessionId req)) = Inr data \<and>
      AI e st (body_message req) (history_of_data data) = (Inl err, st1) \<longrightarrow>
      collection (snd (userMessage e st req)) = collection st) \<and>
   (collection (snd (userMessage e st req)) = collection st \<or>
    (\<exists>data r st1.
       Message_aggregate e st (recent_pipeline (body_sessionId req)) = Inr data \<and>
       AI e st (body_message req) (history_of_data data) = (Inr r, st1) \<and>
       collection (snd (userMessage e st req)) =
         collection st @ [\<lparr>sessionId = body_sessionId req, message = body_message req,
                           reply = r, createdAt = Date_now e\<rparr>]))"
proof (intro conjI allI impI)
  fix data err st1
  assume h: "Message_aggregate e st (recent_pipeline (body_sessionId req)) = Inr data \<and>
      AI e st (body_message req) (history_of_data data) = (Inl err, st1)"
  then have "collection st1 = collection st"
    using AI_state [of e st "body_message req" "history_of_data data"] by simp
  then show "collection (snd (userMessage e st req)) = collection st"
    using h by (simp add: userMessage_generation_failed)
next
  show "collection (snd (userMessage e st req)) = collection st \<or>
    (\<exists>data r st1.
       Message_aggregate e st (recent_pipeline (body_sessionId req)) = Inr data \<and>
       AI e st (body_message req) (history_of_data data) = (Inr r, st1) \<and>
       collection (snd (userMessage e st req)) =
         collection st @ [\<lparr>sessionId = body_sessionId req, message = body_message req,
                           reply = r, createdAt = Date_now e\<rparr>])"
    by (rule userMessage_collection)
qed

theorem userMessage_persists_only_after_generation_witness:
  "Message_aggregate (example_env (Inl (JsError ''401 Incorrect API key provided'' []))) example_store
     (recent_pipeline (body_sessionId example_request)) =
     Inr [[\<lparr>role = User, content = ''hi''\<rparr>, \<lparr>role = Assistant, content = ''hello''\<rparr>]] \<and>
   fst (AI (example_env (Inl (JsError ''401 Incorrect API key provided'' []))) example_store
     (body_message example_request)
     (history_of_data [[\<lparr>role = User, content = ''hi''\<rparr>, \<lparr>role = Assistant, content = ''hello''\<rparr>]])) =
     Inl (JsError ''401 Incorrect API key provided'' []) \<and>
   collection (snd (userMessage (example_env (Inl (JsError ''401 Incorrect API key provided'' [])))
     example_store example_request)) =
     [\<lparr>sessionId = ''s1'', message = ''hi'', reply = ''hello'', createdAt = 5\<rparr>]"
proof -
  let ?e = "example_env (Inl (JsError ''401 Incorrect API key provided'' []))"
  let ?data = "[[\<lparr>role = User, content = ''hi''\<rparr>, \<lparr>role = Assistant, content = ''hello''\<rparr>]]"
  have a: "Message_aggregate ?e example_store (recent_pipeline (body_sessionId example_request)) = Inr ?data"
    by (simp add: example_request_def example_recent)
  obtain st1 where g: "AI ?e example_store (body_message example_request) (history_of_data ?data) =
      (Inl (JsError ''401 Incorrect API key provided'' []), st1)"
    by (simp add: example_AI_rejected)
  have "collection (snd (userMessage ?e example_store example_request)) = collection example_store"
    using userMessage_persists_only_after_generation [of ?e example_store example_request] a g
    by blast
  then show ?thesis using a g by (simp add: example_store_def)
qed

lemma catch_timed_out:
  "userMessage_catch (JsError ''Request timed out.'' []) = generic_response"
  by code_simp

lemma catch_connection_error:
  "userMessage_catch (JsError ''Connection error.'' []) = generic_response"
  by code_simp

text \<open>
  The timeout branch is reached by a message that contains the word \<open>timeout\<close>, and an
  empty generation is answered with the generic response.
\<close>

lemma catch_timeout_worded:
  "userMessage_catch (JsError ''Connection timeout'' []) = timeout_response"
  by code_simp

lemma catch_empty_generation:
  "userMessage_catch (JsError ''No response content from OpenAI'' []) = generic_response"
  by code_simp

text \<open>
  C6. The \<open>catch\<close> block of \<open>userMessage\<close> tells the failure kinds apart by the wording of
  the error message, and a timeout or network failure whose message contains neither
  \<open>timeout\<close> nor \<open>network\<close> falls through to the generic response: when the model call
  rejects with \<open>Request timed out.\<close> or with \<open>Connection error.\<close>, the request on session
  \<open>s1\<close> is answered with the generic processing failure of status 500, not with the
  timeout response of status 504.
\<close>

theorem userMessage_timed_out_answered_generic:
  "fst (userMessage (example_env (Inl (JsError ''Request timed out.'' [])))
          example_store example_request) = generic_response \<and>
   fst (userMessage (example_env (Inl (JsError ''Connection error.'' [])))
          example_store example_request) = generic_response \<and>
   status generic_response = 500 \<and>
   status timeout_response = 504"
proof -
  have "fst (userMessage (example_env (Inl err)) example_store example_request) =
          userMessage_catch err" for err
    by (simp add: userMessage_def Let_def example_request_def example_recent example_AI_rejected)
  then show ?thesis
    by (simp add: catch_timed_out catch_connection_error generic_response_def timeout_response_def)
qed

section \<open>Ties of the sort\<close>

text \<open>
  Every order that a sort on \<open>createdAt\<close> may give to distinct documents is the outcome
  under some rank, ascending and descending.
\<close>

lemma filter_eq_distinct:
  "distinct xs \<Longrightarrow> filter (\<lambda>x. k = x) xs = (if k \<in> set xs then [k] else [])"
  by (induction xs) auto

lemma every_tie_order_has_a_rank:
  assumes perm: "mset ys = mset xs"
      and srt: "sorted (map createdAt ys)"
      and dist: "distinct ys"
  shows "\<exists>rank. sort_createdAt_asc rank xs = ys"
proof -
  define rank where
    "rank d = (case map_of (zip ys [0..<length ys]) d of Some i \<Rightarrow> i | None \<Rightarrow> 0)" for d
  have rank_nth: "rank (ys ! i) = i" if "i < length ys" for i
    using map_of_zip_nth [of ys "[0..<length ys]" i] dist that by (simp add: rank_def)
  let ?key = "\<lambda>d. (createdAt d, rank d)"
  have sorted_key: "sorted (map ?key ys)"
    unfolding sorted_iff_nth_mono
  proof (intro allI impI)
    fix i j assume ij: "i \<le> j" and j: "j < length (map ?key ys)"
    then have "createdAt (ys ! i) \<le> createdAt (ys ! j)"
      using srt by (simp add: sorted_iff_nth_mono)
    then show "map ?key ys ! i \<le> map ?key ys ! j"
      using ij j by (auto simp: rank_nth)
  qed
  have inj: "k = x" if kx: "k \<in> set ys" "x \<in> set ys" "?key k = ?key x" for k x
  proof -
    obtain i j where "i < length ys" "ys ! i = k" "j < length ys" "ys ! j = x"
      using kx(1,2) by (auto simp: in_set_conv_nth)
    then show ?thesis using kx(3) rank_nth by auto
  qed
  have dx: "distinct xs" using dist mset_eq_imp_distinct_iff [OF perm] by simp
  have sx: "set xs = set ys" using mset_eq_setD [OF perm] by simp
  have "filter (\<lambda>x. ?key k = ?key x) ys = filter (\<lambda>x. ?key k = ?key x) xs" if k: "k \<in> set ys" for k
  proof -
    have "filter (\<lambda>x. ?key k = ?key x) ys = filter (\<lambda>x. k = x) ys"
      using inj [OF k] by (intro filter_cong) auto
    moreover have "filter (\<lambda>x. ?key k = ?key x) xs = filter (\<lambda>x. k = x) xs"
      using inj [OF k] sx by (intro filter_cong) auto
    ultimately show ?thesis using k sx dist dx by (simp add: filter_eq_distinct)
  qed
  then have "sort_key ?key xs = ys"
    using perm sorted_key by (intro properties_for_sort_key) auto
  then show ?thesis unfolding sort_createdAt_asc_def by blast
qed

lemma every_tie_order_has_a_rank_desc:
  assumes "mset ys = mset xs" and "sorted (map createdAt (rev ys))" and "distinct ys"
  shows "\<exists>rank. sort_createdAt_desc rank xs = ys"
proof -
  have "\<exists>rank. sort_createdAt_asc rank xs = rev ys"
    using assms by (intro every_tie_order_has_a_rank) simp_all
  then obtain rank where "sort_createdAt_asc rank xs = rev ys" by blast
  then have "sort_createdAt_desc rank xs = ys"
    by (simp add: sort_createdAt_asc_def sort_createdAt_desc_def)
  then show ?thesis by blast
qed

section \<open>History assembled for the reply generator\<close>

lemma history_of_data_rev_concat: "history_of_data data = rev (concat data)"
proof -
  have "(\<lambda>m::ChatMessage. \<lparr>role = role m, content = content m\<rparr>) = (\<lambda>m. m)"
    by (rule ext) simp
  then show ?thesis by (simp add: history_of_data_def)
qed

lemma rev_concat_project_chat:
  "rev (concat (map project_chat ts)) =
     concat (map (\<lambda>d. [\<lparr>role = Assistant, content = reply d\<rparr>, \<lparr>role = User, content = message d\<rparr>])
                 (rev ts))"
  by (induction ts) (simp_all add: project_chat_def)

lemma history_of_recent:
  "history_of_data (recent_pipeline sid rank docs) =
     concat (map (\<lambda>d. [\<lparr>role = Assistant, content = reply d\<rparr>, \<lparr>role = User, content = message d\<rparr>])
       (drop (length (match_sessionId sid docs) - 10)
             (sort_createdAt_asc rank (match_sessionId sid docs))))"
  by (simp add: history_of_data_rev_concat recent_pipeline_def limit_def sort_createdAt_desc_def
        sort_createdAt_asc_def rev_concat_project_chat rev_take)

text \<open>
  C1. The history handed to the reply generator holds the turns of the session's ten
  most recent documents, oldest turn first (\<open>history_of_recent\<close>), but the \<open>reverse\<close>
  runs over the flattened entries, so within each turn the assistant reply comes before
  the user message. For the session \<open>s1\<close> with the one stored turn (\<open>hi\<close>, \<open>hello\<close>) and
  the new message \<open>next\<close>, the history is the reply \<open>hello\<close> and then the message \<open>hi\<close>,
  and the model receives the preamble, \<open>hello\<close> as assistant, \<open>hi\<close> as user and \<open>next\<close>
  as user.
\<close>

theorem userMessage_history_reply_before_message:
  "history_of_data (recent_pipeline ''s1'' rank (collection example_store)) =
     [\<lparr>role = Assistant, content = ''hello''\<rparr>, \<lparr>role = User, content = ''hi''\<rparr>] \<and>
   sent (snd (userMessage (example_env (example_completion (Some ''ok''))) example_store example_request)) =
     [[\<lparr>role = System, content = SYSTEM_PROMPT\<rparr>,
       \<lparr>role = Assistant, content = ''hello''\<rparr>, \<lparr>role = User, content = ''hi''\<rparr>,
       \<lparr>role = User, content = ''next''\<rparr>]]"
proof -
  have "recent_pipeline ''s1'' rank (collection example_store) =
          [[\<lparr>role = User, content = ''hi''\<rparr>, \<lparr>role = Assistant, content = ''hello''\<rparr>]]"
    by (simp add: example_store_def recent_pipeline_def limit_def sort_createdAt_desc_def
          match_sessionId_def project_chat_def)
  then show ?thesis
    by (simp add: example_history example_userMessage_ok AI_messages_def)
qed

section \<open>Failures of fetch history\<close>

text \<open>
  C7. A failure of submit message is answered with one of four fixed bodies
  (\<open>userMessage_failure_body_fixed\<close>). A failure of fetch history is answered with the
  caught value under the key \<open>error\<close>: when the read of the store rejects with a server
  error whose enumerable properties are \<open>ok\<close>, \<open>code\<close> and \<open>codeName\<close>, the body sent to
  the client holds those properties next to the fixed message.
\<close>

theorem userHistory_failure_body_carries_error:
  "fst (userHistory ((example_env (example_completion (Some ''ok'')))\<lparr>aggregate_rejects := Some example_read_fault\<rparr>)
         example_store \<lparr>body_sessionId = ''s1''\<rparr>) =
     \<lparr>status = 500,
      body = JObject [(''msg'', JString ''Internal Server Error''),
                      (''error'', JObject [(''ok'', JNumber 0), (''code'', JNumber 13),
                                           (''codeName'', JString ''Unauthorized'')])]\<rparr>"
  by (simp add: userHistory_def Message_aggregate_def example_env_def example_read_fault_def
        json_of_thrown_def)

lemma userMessage_outcome:
  "(\<exists>err st1. userMessage e st req = (userMessage_catch err, st1)) \<or>
   (\<exists>r st2. userMessage e st req =
      (\<lparr>status = 200, body = JObject [(''reply'', JString r),
                                      (''sessionId'', JString (body_sessionId req))]\<rparr>, st2))"
  by (auto simp: userMessage_def Let_def split: sum.splits prod.splits)

lemma userMessage_catch_fixed:
  "userMessage_catch err \<in>
     {configuration_response, unavailable_response, timeout_response, generic_response}"
  by (simp add: userMessage_catch_def Let_def split: thrown.splits)

lemma userMessage_failure_body_fixed:
  "status (fst (userMessage e st req)) = 200 \<or>
   fst (userMessage e st req) \<in>
     {configuration_response, unavailable_response, timeout_response, generic_response}"
proof -
  consider err st1 where "userMessage e st req = (userMessage_catch err, st1)"
    | r st2 where "userMessage e st req =
      (\<lparr>status = 200, body = JObject [(''reply'', JString r),
                                      (''sessionId'', JString (body_sessionId req))]\<rparr>, st2)"
    using userMessage_outcome by blast
  then show ?thesis
  proof cases
    case 1
    then show ?thesis using userMessage_catch_fixed [of err] by simp
  next
    case 2
    then show ?thesis by simp
  qed
qed

section \<open>Fetch history\<close>

lemma history_pipeline_concat:
  "history_pipeline sid rank docs =
     concat (map project_history (sort_createdAt_asc rank (match_sessionId sid docs)))"
  by (simp add: history_pipeline_def unwind_def replaceRoot_def)

lemma length_concat_project_history: "length (concat (map project_history ts)) = 2 * length ts"
  by (induction ts) (simp_all add: project_history_def)

lemma nth_concat_project_history:
  "i < length ts \<Longrightarrow>
     concat (map project_history ts) ! (2 * i) =
       \<lparr>entry_sender = SenderUser, entry_text = message (ts ! i)\<rparr> \<and>
     concat (map project_history ts) ! (2 * i + 1) =
       \<lparr>entry_sender = SenderAi, entry_text = reply (ts ! i)\<rparr>"
proof (induction ts arbitrary: i)
  case Nil
  then show ?case by simp
next
  case (Cons t ts)
  show ?case
  proof (cases i)
    case 0
    then show ?thesis by (simp add: project_history_def)
  next
    case (Suc j)
    then have "j < length ts" using Cons.prems by simp
    then show ?thesis using Cons.IH [of j] Suc by (simp add: project_history_def)
  qed
qed

lemma mset_session_turns:
  "mset (sort_createdAt_asc rank (match_sessionId sid docs)) =
     mset (filter (\<lambda>d. sessionId d = sid) docs)"
  by (simp add: sort_createdAt_asc_def match_sessionId_def)

lemma sorted_first_component:
  fixes f :: "'a \<Rightarrow> nat" and g :: "'a \<Rightarrow> nat"
  shows "sorted (map (\<lambda>d. (f d, g d)) xs) \<Longrightarrow> sorted (map f xs)"
  by (induction xs) auto

lemma sorted_session_turns:
  "sorted (map createdAt (sort_createdAt_asc rank (match_sessionId sid docs)))"
  unfolding sort_createdAt_asc_def by (rule sorted_first_component) (rule sorted_sort_key)

lemma userHistory_ok:
  assumes "aggregate_rejects e = None"
  shows "userHistory e st req =
           (\<lparr>status = 200,
             body = JObject [(''data'',
                      JArray (map json_of_entry
                        (history_pipeline (body_sessionId req) (tie_order e) (collection st))))]\<rparr>, st)"
  using assms by (simp add: userHistory_def Message_aggregate_def Let_def)

text \<open>
  C3. When the read of the store succeeds, fetch history answers with status 200 and, for
  the \<open>N\<close> stored turns of the session taken in ascending order of \<open>createdAt\<close>, exactly
  \<open>2 * N\<close> entries: entry \<open>2 * i\<close> is tagged \<open>user\<close> and carries the message of turn \<open>i\<close>,
  entry \<open>2 * i + 1\<close> is tagged \<open>ai\<close> and carries its reply. A session without turns
  gets the empty sequence. The store is left as it was. This holds whatever order the
  database gives to turns of equal \<open>createdAt\<close>.
\<close>

theorem userHistory_two_entries_per_turn:
  assumes "aggregate_rejects e = None"
  shows
    "let turns = sort_createdAt_asc (tie_order e)
                   (match_sessionId (body_sessionId req) (collection st));
         entries = map json_of_entry
                     (history_pipeline (body_sessionId req) (tie_order e) (collection st))
     in userHistory e st req =
          (\<lparr>status = 200, body = JObject [(''data'', JArray entries)]\<rparr>, st) \<and>
        mset turns = mset (filter (\<lambda>d. sessionId d = body_sessionId req) (collection st)) \<and>
        sorted (map createdAt turns) \<and>
        length entries = 2 * length (filter (\<lambda>d. sessionId d = body_sessionId req) (collection st)) \<and>
        (\<forall>i<length turns.
           entries ! (2 * i) =
             JObject [(''sender'', JString ''user''), (''text'', JString (message (turns ! i)))] \<and>
           entries ! (2 * i + 1) =
             JObject [(''sender'', JString ''ai''), (''text'', JString (reply (turns ! i)))]) \<and>
        (filter (\<lambda>d. sessionId d = body_sessionId req) (collection st) = [] \<longrightarrow> entries = [])"
proof -
  define turns where
    "turns = sort_createdAt_asc (tie_order e) (match_sessionId (body_sessionId req) (collection st))"
  define entries where
    "entries = map json_of_entry (history_pipeline (body_sessionId req) (tie_order e) (collection st))"
  have hp: "history_pipeline (body_sessionId req) (tie_order e) (collection st) =
              concat (map project_history turns)"
    by (simp add: turns_def history_pipeline_concat)
  have len_turns: "length turns = length (filter (\<lambda>d. sessionId d = body_sessionId req) (collection st))"
    by (simp add: turns_def sort_createdAt_asc_def match_sessionId_def)
  have len: "length entries = 2 * length turns"
    by (simp add: entries_def hp length_concat_project_history)
  have nth: "entries ! (2 * i) =
             JObject [(''sender'', JString ''user''), (''text'', JString (message (turns ! i)))] \<and>
           entries ! (2 * i + 1) =
             JObject [(''sender'', JString ''ai''), (''text'', JString (reply (turns ! i)))]"
    if "i < length turns" for i
  proof -
    have "2 * i < length (concat (map project_history turns))"
         "2 * i + 1 < length (concat (map project_history turns))"
      using that by (simp_all add: length_concat_project_history)
    then show ?thesis
      using nth_concat_project_history [OF that]
      by (simp add: entries_def hp json_of_entry_def)
  qed
  have "userHistory e st req = (\<lparr>status = 200, body = JObject [(''data'', JArray entries)]\<rparr>, st)"
    using userHistory_ok [OF assms] by (simp add: entries_def)
  moreover have "mset turns = mset (filter (\<lambda>d. sessionId d = body_sessionId req) (collection st))"
    by (simp add: turns_def mset_session_turns)
  moreover have "sorted (map createdAt turns)"
    by (simp add: turns_def sorted_session_turns)
  moreover have "filter (\<lambda>d. sessionId d = body_sessionId req) (collection st) = [] \<longrightarrow> entries = []"
    using len len_turns by auto
  ultimately show ?thesis
    unfolding Let_def turns_def [symmetric] entries_def [symmetric]
    using len len_turns nth by simp
qed

theorem userHistory_two_entries_per_turn_witness:
  "aggregate_rejects (example_env (example_completion (Some ''ok''))) = None \<and>
   userHistory (example_env (example_completion (Some ''ok''))) example_store \<lparr>body_sessionId = ''s1''\<rparr> =
     (\<lparr>status = 200,
       body = JObject [(''data'',
                JArray [JObject [(''sender'', JString ''user''), (''text'', JString ''hi'')],
                        JObject [(''sender'', JString ''ai''), (''text'', JString ''hello'')]])]\<rparr>,
      example_store)"
proof -
  let ?e = "example_env (example_completion (Some ''ok''))"
  have h: "aggregate_rejects ?e = None" by (simp add: example_env_def)
  have p: "history_pipeline ''s1'' rank (collection example_store) =
             [\<lparr>entry_sender = SenderUser, entry_text = ''hi''\<rparr>,
              \<lparr>entry_sender = SenderAi, entry_text = ''hello''\<rparr>]" for rank
    by (simp add: history_pipeline_concat sort_createdAt_asc_def match_sessionId_def
          project_history_def example_store_def)
  show ?thesis
    using userHistory_two_entries_per_turn
            [OF h, where st = example_store and req = "\<lparr>body_sessionId = ''s1''\<rparr>"] h
    by (simp add: Let_def p json_of_entry_def)
qed

section \<open>Round trip\<close>

lemma insort_key_snoc:
  "f x \<le> f d \<Longrightarrow> insort_key f x (ys @ [d]) = insort_key f x ys @ [d]"
  by (induction ys) simp_all

lemma sort_key_snoc:
  "\<forall>x\<in>set xs. f x \<le> f d \<Longrightarrow> sort_key f (xs @ [d]) = sort_key f xs @ [d]"
  by (induction xs) (simp_all add: insort_key_snoc)

lemma history_pipeline_snoc:
  assumes "sessionId d = sid"
      and "\<forall>x\<in>set docs. sessionId x = sid \<longrightarrow> createdAt x < createdAt d"
  shows "history_pipeline sid rank (docs @ [d]) = history_pipeline sid rank docs @ project_history d"
proof -
  have "\<forall>x\<in>set (match_sessionId sid docs). (createdAt x, rank x) \<le> (createdAt d, rank d)"
    using assms(2) by (simp add: match_sessionId_def)
  then have "sort_createdAt_asc rank (match_sessionId sid docs @ [d]) =
               sort_createdAt_asc rank (match_sessionId sid docs) @ [d]"
    unfolding sort_createdAt_asc_def by (rule sort_key_snoc)
  moreover have "match_sessionId sid (docs @ [d]) = match_sessionId sid docs @ [d]"
    using assms(1) by (simp add: match_sessionId_def)
  ultimately show ?thesis by (simp add: history_pipeline_concat)
qed

lemma example_userMessage_stamped:
  "userMessage (example_env (example_completion (Some ''ok''))) (example_store_stamped t) example_request =
     (\<lparr>status = 200, body = JObject [(''reply'', JString ''ok''), (''sessionId'', JString ''s1'')]\<rparr>,
      \<lparr>collection = [\<lparr>sessionId = ''s1'', message = ''hi'', reply = ''hello'', createdAt = t\<rparr>,
                     \<lparr>sessionId = ''s1'', message = ''next'', reply = ''ok'', createdAt = 7\<rparr>],
       sent = [AI_messages ''next'' [\<lparr>role = Assistant, content = ''hello''\<rparr>, \<lparr>role = User, content = ''hi''\<rparr>]]\<rparr>)"
proof -
  have "Message_aggregate (example_env outcome) (example_store_stamped t) (recent_pipeline ''s1'') =
     Inr [[\<lparr>role = User, content = ''hi''\<rparr>, \<lparr>role = Assistant, content = ''hello''\<rparr>]]" for outcome
    by (simp add: Message_aggregate_def example_env_def example_store_stamped_def
          recent_pipeline_def limit_def sort_createdAt_desc_def match_sessionId_def project_chat_def)
  then show ?thesis
    by (simp add: userMessage_def Let_def example_request_def example_history
          example_AI_ok example_create) (simp add: example_store_stamped_def)
qed

text \<open>
  C4. After a submit-message request answered with status 200, on a store whose turns
  of that session are all stamped earlier than the new one, a fetch history for the
  session whose read succeeds answers with the entries it had before followed by exactly
  two more: the submitted message tagged \<open>user\<close> and then the reply of the response
  tagged \<open>ai\<close>, both unchanged.
\<close>

theorem userMessage_then_userHistory:
  assumes "status (fst (userMessage e st req)) = 200"
      and "\<forall>d\<in>set (collection st). sessionId d = body_sessionId req \<longrightarrow> createdAt d < Date_now e"
      and "aggregate_rejects e' = None"
  shows "\<exists>r. fst (userMessage e st req) =
               \<lparr>status = 200, body = JObject [(''reply'', JString r),
                                              (''sessionId'', JString (body_sessionId req))]\<rparr> \<and>
             fst (userHistory e' (snd (userMessage e st req)) \<lparr>body_sessionId = body_sessionId req\<rparr>) =
               \<lparr>status = 200,
                body = JObject [(''data'',
                  JArray (map json_of_entry
                            (history_pipeline (body_sessionId req) (tie_order e') (collection st)) @
                          [JObject [(''sender'', JString ''user''), (''text'', JString (body_message req))],
                           JObject [(''sender'', JString ''ai''), (''text'', JString r)]]))]\<rparr>"
proof -
  obtain data r st1 st2 where
      ai: "AI e st (body_message req) (history_of_data data) = (Inr r, st1)"
    and cr: "Message_create e st1 (body_sessionId req) (body_message req) r = Inr st2"
    and um: "userMessage e st req =
             (\<lparr>status = 200, body = JObject [(''reply'', JString r),
                                             (''sessionId'', JString (body_sessionId req))]\<rparr>, st2)"
    using userMessage_200 [OF assms(1)] by blast
  let ?d = "\<lparr>sessionId = body_sessionId req, message = body_message req, reply = r,
             createdAt = Date_now e\<rparr>"
  have "collection st1 = collection st"
    using AI_state [of e st "body_message req" "history_of_data data"] ai by simp
  then have col: "collection st2 = collection st @ [?d]"
    using Message_create_Inr [OF cr] by simp
  have "history_pipeline (body_sessionId req) (tie_order e') (collection st2) =
          history_pipeline (body_sessionId req) (tie_order e') (collection st) @ project_history ?d"
    unfolding col using assms(2) by (intro history_pipeline_snoc) simp_all
  then have "fst (userHistory e' st2 \<lparr>body_sessionId = body_sessionId req\<rparr>) =
               \<lparr>status = 200,
                body = JObject [(''data'',
                  JArray (map json_of_entry
                            (history_pipeline (body_sessionId req) (tie_order e') (collection st)) @
                          [JObject [(''sender'', JString ''user''), (''text'', JString (body_message req))],
                           JObject [(''sender'', JString ''ai''), (''text'', JString r)]]))]\<rparr>"
    using userHistory_ok [OF assms(3), where st = st2 and req = "\<lparr>body_sessionId = body_sessionId req\<rparr>"]
    by (simp add: project_history_def json_of_entry_def)
  then show ?thesis using um by simp
qed

theorem userMessage_then_userHistory_witness:
  "status (fst (userMessage (example_env (example_completion (Some ''ok''))) example_store example_request)) = 200 \<and>
   map createdAt (collection example_store) = [5] \<and>
   Date_now (example_env (example_completion (Some ''ok''))) = 7 \<and>
   aggregate_rejects (example_env (example_completion (Some ''ok''))) = None \<and>
   fst (userHistory (example_env (example_completion (Some ''ok'')))
          (snd (userMessage (example_env (example_completion (Some ''ok''))) example_store example_request))
          \<lparr>body_sessionId = ''s1''\<rparr>) =
     \<lparr>status = 200,
      body = JObject [(''data'',
               JArray [JObject [(''sender'', JString ''user''), (''text'', JString ''hi'')],
                       JObject [(''sender'', JString ''ai''), (''text'', JString ''hello'')],
                       JObject [(''sender'', JString ''user''), (''text'', JString ''next'')],
                       JObject [(''sender'', JString ''ai''), (''text'', JString ''ok'')]])]\<rparr>"
proof -
  let ?e = "example_env (example_completion (Some ''ok''))"
  have s: "status (fst (userMessage ?e example_store example_request)) = 200"
    by (simp add: example_userMessage_ok)
  have c: "\<forall>d\<in>set (collection example_store). sessionId d = body_sessionId example_request \<longrightarrow>
        createdAt d < Date_now ?e"
    by (simp add: example_store_def example_env_def)
  have a: "aggregate_rejects ?e = None"
    by (simp add: example_env_def)
  have p: "history_pipeline ''s1'' rank (collection example_store) =
             [\<lparr>entry_sender = SenderUser, entry_text = ''hi''\<rparr>,
              \<lparr>entry_sender = SenderAi, entry_text = ''hello''\<rparr>]" for rank
    by (simp add: history_pipeline_concat sort_createdAt_asc_def match_sessionId_def
          project_history_def example_store_def)
  have b: "body_sessionId example_request = ''s1''" "body_message example_request = ''next''"
    by (simp_all add: example_request_def)
  have "map createdAt (collection example_store) = [5]" "Date_now ?e = 7"
    by (simp_all add: example_store_def example_env_def)
  then show ?thesis
    using userMessage_then_userHistory [OF s c a] s a
    by (simp add: b p json_of_entry_def example_userMessage_ok)
qed

text \<open>
  Without the condition on the stamps the new turn need not come last. When the stored
  turn is stamped 9 and the clock stands at 7, the request is answered with status 200
  and the history that follows begins with the new turn. When the stored turn is stamped
  7, as the new one is, a database that ranks the new turn first among equal stamps
  returns the same.
\<close>

theorem userMessage_then_userHistory_stamp_counterexample:
  "fst (userMessage (example_env (example_completion (Some ''ok''))) (example_store_stamped 9)
          example_request) =
     \<lparr>status = 200, body = JObject [(''reply'', JString ''ok''), (''sessionId'', JString ''s1'')]\<rparr> \<and>
   fst (userHistory (example_env (example_completion (Some ''ok'')))
          (snd (userMessage (example_env (example_completion (Some ''ok''))) (example_store_stamped 9)
                  example_request))
          \<lparr>body_sessionId = ''s1''\<rparr>) =
     \<lparr>status = 200,
      body = JObject [(''data'',
               JArray [JObject [(''sender'', JString ''user''), (''text'', JString ''next'')],
                       JObject [(''sender'', JString ''ai''), (''text'', JString ''ok'')],
                       JObject [(''sender'', JString ''user''), (''text'', JString ''hi'')],
                       JObject [(''sender'', JString ''ai''), (''text'', JString ''hello'')]])]\<rparr> \<and>
   fst (userMessage (example_env (example_completion (Some ''ok''))) (example_store_stamped 7)
          example_request) =
     \<lparr>status = 200, body = JObject [(''reply'', JString ''ok''), (''sessionId'', JString ''s1'')]\<rparr> \<and>
   fst (userHistory ((example_env (example_completion (Some ''ok'')))\<lparr>tie_order := next_first\<rparr>)
          (snd (userMessage (example_env (example_completion (Some ''ok''))) (example_store_stamped 7)
                  example_request))
          \<lparr>body_sessionId = ''s1''\<rparr>) =
     \<lparr>status = 200,
      body = JObject [(''data'',
               JArray [JObject [(''sender'', JString ''user''), (''text'', JString ''next'')],
                       JObject [(''sender'', JString ''ai''), (''text'', JString ''ok'')],
                       JObject [(''sender'', JString ''user''), (''text'', JString ''hi'')],
                       JObject [(''sender'', JString ''ai''), (''text'', JString ''hello'')]])]\<rparr>"
proof -
  let ?e = "example_env (example_completion (Some ''ok''))"
  let ?after = "\<lambda>t. \<lparr>collection =
                   [\<lparr>sessionId = ''s1'', message = ''hi'', reply = ''hello'', createdAt = t\<rparr>,
                    \<lparr>sessionId = ''s1'', message = ''next'', reply = ''ok'', createdAt = 7\<rparr>],
                 sent = [AI_messages ''next'' [\<lparr>role = Assistant, content = ''hello''\<rparr>,
                                               \<lparr>role = User, content = ''hi''\<rparr>]]\<rparr>"
  let ?swapped =
    "\<lparr>status = 200,
      body = JObject [(''data'',
               JArray [JObject [(''sender'', JString ''user''), (''text'', JString ''next'')],
                       JObject [(''sender'', JString ''ai''), (''text'', JString ''ok'')],
                       JObject [(''sender'', JString ''user''), (''text'', JString ''hi'')],
                       JObject [(''sender'', JString ''ai''), (''text'', JString ''hello'')]])]\<rparr>"
  have late: "fst (userHistory ?e (?after 9) \<lparr>body_sessionId = ''s1''\<rparr>) = ?swapped"
    by (simp add: userHistory_def Let_def Message_aggregate_def example_env_def
          history_pipeline_concat sort_createdAt_asc_def match_sessionId_def project_history_def
          json_of_entry_def)
  have tie: "fst (userHistory (?e\<lparr>tie_order := next_first\<rparr>) (?after 7)
                    \<lparr>body_sessionId = ''s1''\<rparr>) = ?swapped"
    by (simp add: userHistory_def Let_def Message_aggregate_def example_env_def
          history_pipeline_concat sort_createdAt_asc_def match_sessionId_def project_history_def
          json_of_entry_def next_first_def)
  show ?thesis
    using late tie by (simp add: example_userMessage_stamped)
qed

section \<open>What the validation accepts\<close>

lemma sessionId_chain_accepts:
  "snd (sessionId_chain v) = [] \<longleftrightarrow> 1 \<le> length (trim v) \<and> length (trim v) \<le> 200"
  by (auto simp: sessionId_chain_def Let_def isString_def isLength_def)

lemma message_chain_accepts:
  "snd (message_chain v) = [] \<longleftrightarrow> 1 \<le> length (trim v) \<and> length (trim v) \<le> 5000"
  by (auto simp: message_chain_def Let_def isString_def isLength_def)

lemma fst_chains: "fst (sessionId_chain v) = trim v" "fst (message_chain v) = trim v"
  by (simp_all add: sessionId_chain_def message_chain_def Let_def)

lemma validateMessage_unfold:
  "validateMessage req =
     (\<lparr>body_sessionId = fst (sessionId_chain (body_sessionId req)),
       body_message = fst (message_chain (body_message req))\<rparr>,
      snd (sessionId_chain (body_sessionId req)) @ snd (message_chain (body_message req)))"
  by (simp add: validateMessage_def Let_def split: prod.splits)

lemma validate_rejects:
  "snd (chain req) \<noteq> [] \<Longrightarrow>
     status (fst (validate chain handler e st req)) = 400 \<and> snd (validate chain handler e st req) = st"
  by (cases "chain req") (auto simp: validate_def split: list.splits)

lemma validate_passes:
  "snd (chain req) = [] \<Longrightarrow> validate chain handler e st req = handler e st (fst (chain req))"
  by (cases "chain req") (auto simp: validate_def)

lemma isspace_space: "isspace CHR '' ''"
  by (simp add: isspace_def)

lemma not_isspace_a: "\<not> isspace CHR ''a''"
  by (simp add: isspace_def)

lemma trim_replicate: "\<not> isspace c \<Longrightarrow> trim (replicate n c) = replicate n c"
  by (cases n) (simp_all add: trim_def ltrim_def rtrim_def replicate_append_same)

lemma trim_replicate_space:
  assumes "\<not> isspace c" and "0 < n"
  shows "trim (replicate n c @ '' '') = replicate n c"
proof -
  obtain m where n: "n = Suc m" using assms(2) by (cases n) simp_all
  have "ltrim (replicate n c @ '' '') = replicate n c @ '' ''"
    using assms(1) n by (simp add: ltrim_def)
  moreover have "rtrim (replicate n c @ '' '') = replicate n c"
    using assms(1) n by (simp add: rtrim_def isspace_space replicate_append_same)
  ultimately show ?thesis by (simp add: trim_def)
qed

text \<open>
  C9. The validation of submit message accepts exactly the requests whose \<open>sessionId\<close>,
  with the whitespace at both ends removed, has between 1 and 200 characters and whose
  \<open>message\<close>, trimmed likewise, has between 1 and 5000: a trimmed length of 0 or 5001 is
  rejected and 5000 accepted, a trimmed \<open>sessionId\<close> of length 0 or 201 rejected and 200
  accepted. A rejected request is answered with status 400 and leaves the store and the
  log of model calls as they were; an accepted one reaches the controller with both
  fields trimmed.
\<close>

theorem validateMessage_accepts_trimmed:
  "(snd (validateMessage req) = [] \<longleftrightarrow>
      1 \<le> length (trim (body_sessionId req)) \<and> length (trim (body_sessionId req)) \<le> 200 \<and>
      1 \<le> length (trim (body_message req)) \<and> length (trim (body_message req)) \<le> 5000) \<and>
   fst (validateMessage req) =
     \<lparr>body_sessionId = trim (body_sessionId req), body_message = trim (body_message req)\<rparr> \<and>
   (snd (validateMessage req) \<noteq> [] \<longrightarrow>
      status (fst (post_message e st req)) = 400 \<and> snd (post_message e st req) = st) \<and>
   (snd (validateMessage req) = [] \<longrightarrow>
      post_message e st req =
        userMessage e st \<lparr>body_sessionId = trim (body_sessionId req),
                          body_message = trim (body_message req)\<rparr>)"
proof (intro conjI impI)
  show "snd (validateMessage req) = [] \<longleftrightarrow>
      1 \<le> length (trim (body_sessionId req)) \<and> length (trim (body_sessionId req)) \<le> 200 \<and>
      1 \<le> length (trim (body_message req)) \<and> length (trim (body_message req)) \<le> 5000"
    by (simp add: validateMessage_unfold sessionId_chain_accepts message_chain_accepts)
  show f: "fst (validateMessage req) =
     \<lparr>body_sessionId = trim (body_sessionId req), body_message = trim (body_message req)\<rparr>"
    by (simp add: validateMessage_unfold fst_chains)
  show "status (fst (post_message e st req)) = 400" if "snd (validateMessage req) \<noteq> []"
    using validate_rejects [of validateMessage req userMessage e st] that
    by (simp add: post_message_def)
  show "snd (post_message e st req) = st" if "snd (validateMessage req) \<noteq> []"
    using validate_rejects [of validateMessage req userMessage e st] that
    by (simp add: post_message_def)
  show "post_message e st req =
        userMessage e st \<lparr>body_sessionId = trim (body_sessionId req),
                          body_message = trim (body_message req)\<rparr>"
    if "snd (validateMessage req) = []"
    using validate_passes [of validateMessage req userMessage e st] that f
    by (simp add: post_message_def)
qed

theorem validateMessage_accepts_trimmed_witness:
  "snd (validateMessage \<lparr>body_sessionId = replicate 200 CHR ''a'', body_message = replicate 5000 CHR ''a''\<rparr>) = [] \<and>
   snd (validateMessage \<lparr>body_sessionId = replicate 200 CHR ''a'', body_message = replicate 5001 CHR ''a''\<rparr>) \<noteq> [] \<and>
   snd (validateMessage \<lparr>body_sessionId = replicate 201 CHR ''a'', body_message = replicate 5000 CHR ''a''\<rparr>) \<noteq> [] \<and>
   snd (validateMessage \<lparr>body_sessionId = replicate 200 CHR ''a'', body_message = ''''\<rparr>) \<noteq> [] \<and>
   snd (validateMessage \<lparr>body_sessionId = '''', body_message = replicate 5000 CHR ''a''\<rparr>) \<noteq> [] \<and>
   post_message (example_env (example_completion (Some ''ok''))) example_store
     \<lparr>body_sessionId = ''s1'', body_message = ''''\<rparr> =
     (\<lparr>status = 400,
       body = JObject [(''errors'',
                JArray [JObject [(''path'', JString ''message''), (''msg'', JString ''Message is required'')],
                        JObject [(''path'', JString ''message''),
                                 (''msg'', JString ''Message must be between 1 and 5000 characters'')]])]\<rparr>,
      example_store)"
proof -
  have t: "\<And>n. trim (replicate n CHR ''a'') = replicate n CHR ''a''" "trim '''' = ''''"
    by (simp_all add: trim_replicate not_isspace_a) (simp add: trim_def ltrim_def rtrim_def)
  have "snd (validateMessage \<lparr>body_sessionId = replicate 200 CHR ''a'', body_message = replicate 5000 CHR ''a''\<rparr>) = []"
    using validateMessage_accepts_trimmed
      [of "\<lparr>body_sessionId = replicate 200 CHR ''a'', body_message = replicate 5000 CHR ''a''\<rparr>"]
    by (simp add: t)
  moreover have "snd (validateMessage \<lparr>body_sessionId = replicate 200 CHR ''a'', body_message = replicate 5001 CHR ''a''\<rparr>) \<noteq> []"
    using validateMessage_accepts_trimmed
      [of "\<lparr>body_sessionId = replicate 200 CHR ''a'', body_message = replicate 5001 CHR ''a''\<rparr>"]
    by (simp add: t)
  moreover have "snd (validateMessage \<lparr>body_sessionId = replicate 201 CHR ''a'', body_message = replicate 5000 CHR ''a''\<rparr>) \<noteq> []"
    using validateMessage_accepts_trimmed
      [of "\<lparr>body_sessionId = replicate 201 CHR ''a'', body_message = replicate 5000 CHR ''a''\<rparr>"]
    by (simp add: t)
  moreover have "snd (validateMessage \<lparr>body_sessionId = replicate 200 CHR ''a'', body_message = ''''\<rparr>) \<noteq> []"
    using validateMessage_accepts_trimmed
      [of "\<lparr>body_sessionId = replicate 200 CHR ''a'', body_message = ''''\<rparr>"]
    by (simp add: t)
  moreover have "snd (validateMessage \<lparr>body_sessionId = '''', body_message = replicate 5000 CHR ''a''\<rparr>) \<noteq> []"
    using validateMessage_accepts_trimmed
      [of "\<lparr>body_sessionId = '''', body_message = replicate 5000 CHR ''a''\<rparr>"]
    by (simp add: t)
  moreover have "post_message (example_env (example_completion (Some ''ok''))) example_store
     \<lparr>body_sessionId = ''s1'', body_message = ''''\<rparr> =
     (\<lparr>status = 400,
       body = JObject [(''errors'',
                JArray [JObject [(''path'', JString ''message''), (''msg'', JString ''Message is required'')],
                        JObject [(''path'', JString ''message''),
                                 (''msg'', JString ''Message must be between 1 and 5000 characters'')]])]\<rparr>,
      example_store)"
    by (simp add: post_message_def validate_def validateMessage_def sessionId_chain_def
          message_chain_def Let_def trim_def ltrim_def rtrim_def isspace_def isString_def isLength_def)
  ultimately show ?thesis by blast
qed

text \<open>
  The lengths that decide are not those of the submitted strings: a message that is one
  space has length 1 and is rejected, and a message of 5000 letters and a final space
  has length 5001 and is accepted, as is a \<open>sessionId\<close> of 200 letters and a final space,
  of length 201.
\<close>

theorem validateMessage_untrimmed_length_counterexample:
  "length '' '' = 1 \<and>
   snd (validateMessage \<lparr>body_sessionId = ''s1'', body_message = '' ''\<rparr>) \<noteq> [] \<and>
   length (replicate 5000 CHR ''a'' @ '' '') = 5001 \<and>
   snd (validateMessage \<lparr>body_sessionId = ''s1'', body_message = replicate 5000 CHR ''a'' @ '' ''\<rparr>) = [] \<and>
   length (replicate 200 CHR ''a'' @ '' '') = 201 \<and>
   snd (validateMessage \<lparr>body_sessionId = replicate 200 CHR ''a'' @ '' '', body_message = ''hi''\<rparr>) = []"
proof -
  have s: "trim '' '' = ''''" "trim ''s1'' = ''s1''" "trim ''hi'' = ''hi''"
    by (simp_all add: trim_def ltrim_def rtrim_def isspace_def)
  have l: "trim (replicate 5000 CHR ''a'' @ '' '') = replicate 5000 CHR ''a''"
          "trim (replicate 200 CHR ''a'' @ '' '') = replicate 200 CHR ''a''"
    by (simp_all add: trim_replicate_space not_isspace_a)
  show ?thesis
    by (simp add: validateMessage_unfold sessionId_chain_accepts message_chain_accepts s l)
qed

end
